theory Spec2Isabelle
  imports Main
begin

section \<open>Data model\<close>

text \<open>
  The pub/sub service of the notifier (class \<open>PubSubServiceImpl\<close>) talks to a NATS
  JetStream broker. Values thrown by the broker client or by the JavaScript runtime are
  modelled by \<open>js_error\<close>: \<open>NatsError c\<close> is an instance of \<open>NatsError\<close> whose
  \<open>api_error\<close> is absent (\<open>c = None\<close>) or carries \<open>err_code = n\<close> (\<open>c = Some n\<close>);
  \<open>TypeError\<close> is what reading a property of \<open>undefined\<close> or \<open>null\<close> throws; \<open>OtherError\<close>
  is any other thrown value.

  The repository holds two versions of the service: the one with the retry loop, which
  the line numbers below refer to, and the one in \<open>src/pubSub/pubSub.ts\<close>, of which only
  the delivery callback is modelled.
\<close>

datatype js_error = NatsError "int option" | TypeError | OtherError

text \<open>
  An element of a subject array is a string or \<open>undefined\<close> (\<open>None\<close>): indexing an empty
  array yields \<open>undefined\<close>, and \<open>push\<close> appends whatever it is given.
\<close>

type_synonym js_string = "string option"

text \<open>
  \<open>StreamConfig\<close> of the broker client, restricted to the fields the service reads or
  writes. \<open>name\<close> and \<open>num_replicas\<close> are absent (\<open>None\<close>) in the object literal built by
  \<open>getStreamConfig\<close>.
\<close>

record StreamConfig =
  name :: "string option"
  max_age :: int
  subjects :: "js_string list"
  num_replicas :: "int option"

text \<open>
  The entries of the configuration tables of \<open>./utils\<close>. The fields \<open>streamName\<close>,
  \<open>consumerName\<close> and \<open>queueName\<close> of a \<open>NatsTopic\<close> carry the prefix \<open>topic_\<close>, since the
  service uses the plain names for its local variables.
\<close>

record NatsTopic =
  topic_streamName :: string
  topic_consumerName :: string
  topic_queueName :: string

record NatsStreamConfig =
  max_age :: int

record NatsConsumerConfig =
  ack_wait :: int
  num_replicas :: "int option"

datatype AckPolicy = Explicit | AckNone | AckAll
datatype DeliverPolicy = Last | DeliverAll | New | LastPerSubject

text \<open>
  \<open>ConsumerConfig\<close> of the broker client: the fields of the object literal passed to
  \<open>consumers.add\<close> and to the consumer options builder.
\<close>

record ConsumerConfig =
  name :: string
  deliver_subject :: string
  durable_name :: string
  ack_wait :: int
  num_replicas :: "int option"
  filter_subject :: string
  deliver_group :: string
  ack_policy :: AckPolicy
  deliver_policy :: DeliverPolicy

text \<open>
  The consumer options assembled by \<open>ConsumerOptsBuilderImpl\<close>: the configuration, the
  stream bound by \<open>bindStream\<close> and the queue set by \<open>queue\<close>. The delivery callback wired
  by \<open>callback\<close> is modelled on its own below.
\<close>

record ConsumerOpts =
  config :: ConsumerConfig
  stream :: string
  queue :: string

record ServerInfo =
  cluster :: "string option"

record NatsConnection =
  info :: "ServerInfo option"

section \<open>Observable events and the broker\<close>

datatype call =
    StreamsInfo string
  | StreamsUpdate string StreamConfig
  | StreamsAdd StreamConfig
  | ConsumersInfo string string
  | ConsumersUpdate string string ConsumerConfig
  | ConsumersAdd string ConsumerConfig
  | JsSubscribe string ConsumerOpts

datatype level = INFO | WARN | ERROR

datatype log_arg = Str string | Err js_error | Data string

datatype msg_op = Ack | Nak | Working | Term

text \<open>
  What the service does to the outside world, in order: a request to the broker, a line
  written to the logger (the pieces of the message and the further arguments, in order), a
  pause of the given number of milliseconds, an invocation of the caller's handler with
  its argument, and an operation on a delivered message.
\<close>

datatype event =
    BrokerCall call
  | Log level "log_arg list"
  | Sleep nat
  | Handler string
  | MsgOp msg_op

text \<open>
  The broker is an environment: each request is answered depending on everything that
  happened before it (the events so far) and on its arguments. An answer is a thrown value
  (\<open>Inl\<close>) or a result (\<open>Inr\<close>); the two info requests may return \<open>null\<close> (\<open>None\<close>), as their
  declared types \<open>StreamInfo | null\<close> and \<open>ConsumerInfo | null\<close> say, and otherwise the
  \<open>config\<close> of the info object.
\<close>

record broker =
  streams_info :: "event list \<Rightarrow> string \<Rightarrow> js_error + StreamConfig option"
  streams_update :: "event list \<Rightarrow> string \<Rightarrow> StreamConfig \<Rightarrow> js_error + unit"
  streams_add :: "event list \<Rightarrow> StreamConfig \<Rightarrow> js_error + unit"
  consumers_info :: "event list \<Rightarrow> string \<Rightarrow> string \<Rightarrow> js_error + ConsumerConfig option"
  consumers_update :: "event list \<Rightarrow> string \<Rightarrow> string \<Rightarrow> ConsumerConfig \<Rightarrow> js_error + unit"
  consumers_add :: "event list \<Rightarrow> string \<Rightarrow> ConsumerConfig \<Rightarrow> js_error + unit"
  subscribe :: "event list \<Rightarrow> string \<Rightarrow> ConsumerOpts \<Rightarrow> js_error + unit"

text \<open>
  The module \<open>./utils\<close>: the three configuration tables, the subjects of a stream and the
  number of start-up attempts.
\<close>

record utils =
  NatsTopicMapping :: "string \<rightharpoonup> NatsTopic"
  NatsConsumerWiseConfigMapping :: "string \<rightharpoonup> NatsConsumerConfig"
  NatsStreamWiseConfigMapping :: "string \<rightharpoonup> NatsStreamConfig"
  GetStreamSubjects :: "string \<Rightarrow> string list"
  numberOfRetries :: nat

section \<open>Stream reconciliation\<close>

text \<open>\<open>xs[0]\<close> in JavaScript: \<open>undefined\<close> on an empty array.\<close>

definition index0 :: "js_string list \<Rightarrow> js_string" where
  "index0 xs = (case xs of [] \<Rightarrow> None | x # _ \<Rightarrow> x)"

text \<open>
  \<open>checkConfigChangeReqd\<close> mutates \<open>existingStreamInfo\<close> in place; the model returns the
  flag together with the mutated configuration.
\<close>

definition checkConfigChangeReqd :: "StreamConfig \<Rightarrow> StreamConfig \<Rightarrow> bool \<times> StreamConfig" where
  "checkConfigChangeReqd existingStreamInfo toUpdateConfig =
     (let (configChanged, existing1) =
            (if StreamConfig.max_age toUpdateConfig \<noteq> 0
                \<and> StreamConfig.max_age toUpdateConfig \<noteq> StreamConfig.max_age existingStreamInfo
             then (True, existingStreamInfo\<lparr>StreamConfig.max_age := StreamConfig.max_age toUpdateConfig\<rparr>)
             else (False, existingStreamInfo))
      in if index0 (subjects toUpdateConfig) \<notin> set (subjects existing1)
         then (True, existing1\<lparr>subjects := subjects existing1 @ [index0 (subjects toUpdateConfig)]\<rparr>)
         else (configChanged, existing1))"

definition getStreamConfig :: "utils \<Rightarrow> NatsStreamConfig \<Rightarrow> string \<Rightarrow> StreamConfig" where
  "getStreamConfig u streamConfig streamName =
     \<lparr>StreamConfig.name = None,
      max_age = NatsStreamConfig.max_age streamConfig,
      subjects = map Some (GetStreamSubjects u streamName),
      num_replicas = None\<rparr>"

text \<open>
  \<open>addOrUpdateStream\<close>. The argument \<open>h\<close> is the history (the events before the call);
  the result is what the call throws or returns, the desired configuration (whose \<open>name\<close>
  the creation branch sets in place) and the events of the call. The rejection of
  \<open>streams.update\<close> is handled by its own \<open>.catch\<close>, so the success line is logged after
  it as well. In the outer \<open>catch\<close>, reading \<open>err.api_error.err_code\<close> of a \<open>NatsError\<close>
  without \<open>api_error\<close> throws, and a thrown value that is no \<open>NatsError\<close> is dropped.
\<close>

definition addOrUpdateStream ::
  "broker \<Rightarrow> string \<Rightarrow> StreamConfig \<Rightarrow> event list
     \<Rightarrow> (js_error + unit) \<times> StreamConfig \<times> event list" where
  "addOrUpdateStream jsm streamName streamConfig h =
     (let e1 = [BrokerCall (StreamsInfo streamName)] in
      case streams_info jsm h streamName of
        Inr None \<Rightarrow> (Inr (), streamConfig, e1)
      | Inr (Some Info_config) \<Rightarrow>
          (case checkConfigChangeReqd Info_config streamConfig of
             (True, Info_config') \<Rightarrow>
               (let e2 = e1 @ [BrokerCall (StreamsUpdate streamName Info_config')] in
                case streams_update jsm (h @ e1) streamName Info_config' of
                  Inl err \<Rightarrow>
                    (Inr (), streamConfig,
                     e2 @ [Log ERROR [Str ''error occurred during updating streams'', Err err],
                           Log INFO [Str ''streams updated successfully'']])
                | Inr _ \<Rightarrow>
                    (Inr (), streamConfig, e2 @ [Log INFO [Str ''streams updated successfully'']]))
           | (False, _) \<Rightarrow> (Inr (), streamConfig, e1))
      | Inl (NatsError None) \<Rightarrow> (Inl TypeError, streamConfig, e1)
      | Inl (NatsError (Some err_code)) \<Rightarrow>
          (if err_code = 10059
           then
             (let streamConfig' = streamConfig\<lparr>StreamConfig.name := Some streamName\<rparr>;
                  e2 = e1 @ [BrokerCall (StreamsAdd streamConfig')] in
              case streams_add jsm (h @ e1) streamConfig' of
                Inr _ \<Rightarrow> (Inr (), streamConfig', e2 @ [Log INFO [Str ''stream added successfully'']])
              | Inl err \<Rightarrow>
                  (Inr (), streamConfig',
                   e2 @ [Log ERROR [Str ''error occurred during adding streams'', Err err]]))
           else
             (Inr (), streamConfig,
              e1 @ [Log ERROR [Str ''error occurred due to :'', Err (NatsError (Some err_code))]]))
      | Inl _ \<Rightarrow> (Inr (), streamConfig, e1))"

section \<open>Consumer reconciliation\<close>

text \<open>
  Comparisons of a replica count that may be \<open>undefined\<close> with a number: \<open>undefined > n\<close>
  is false, \<open>undefined == 0\<close> is false, and \<open>!=\<close> between two such values is inequality.
\<close>

definition js_gt :: "int option \<Rightarrow> int \<Rightarrow> bool" where
  "js_gt x n = (case x of None \<Rightarrow> False | Some v \<Rightarrow> v > n)"

text \<open>Lines 136 to 139: the acknowledgement wait.\<close>

definition updateConsumer_ack_wait :: "NatsConsumerConfig \<Rightarrow> ConsumerConfig \<Rightarrow> ConsumerConfig \<times> bool" where
  "updateConsumer_ack_wait consumerConfiguration info_config =
     (if NatsConsumerConfig.ack_wait consumerConfiguration > 0
         \<and> ConsumerConfig.ack_wait info_config \<noteq> NatsConsumerConfig.ack_wait consumerConfiguration
      then (info_config\<lparr>ConsumerConfig.ack_wait := NatsConsumerConfig.ack_wait consumerConfiguration\<rparr>, True)
      else (info_config, False))"

text \<open>
  Lines 141 to 143: with a desired replica count of zero the local copy of the consumer
  configuration takes the replica count of the stream; \<open>streamInfo.config\<close> of \<open>null\<close> throws.
\<close>

definition updateConsumer_inherit ::
  "NatsConsumerConfig \<Rightarrow> StreamConfig option \<Rightarrow> ConsumerConfig \<Rightarrow> js_error + ConsumerConfig" where
  "updateConsumer_inherit consumerConfiguration streamInfo info_config =
     (if NatsConsumerConfig.num_replicas consumerConfiguration = Some 0
      then (case streamInfo of
              None \<Rightarrow> Inl TypeError
            | Some streamInfo_config \<Rightarrow>
                Inr (info_config\<lparr>ConsumerConfig.num_replicas := StreamConfig.num_replicas streamInfo_config\<rparr>))
      else Inr info_config)"

text \<open>
  Lines 144 to 151: a positive desired replica count that differs from the actual one is
  taken over, unless it is above one on a connection without cluster information, which
  only logs a warning. \<open>this.nc.info.cluster\<close> is read only when the count is above one, and
  throws when the connection has no server information.
\<close>

definition updateConsumer_replicas ::
  "NatsConnection \<Rightarrow> NatsConsumerConfig \<Rightarrow> ConsumerConfig \<times> bool
     \<Rightarrow> js_error + (ConsumerConfig \<times> bool) \<times> event list" where
  "updateConsumer_replicas nc consumerConfiguration cu =
     (let (info_config, updatesDetected) = cu;
          applied = (info_config\<lparr>ConsumerConfig.num_replicas := NatsConsumerConfig.num_replicas consumerConfiguration\<rparr>, True)
      in if js_gt (NatsConsumerConfig.num_replicas consumerConfiguration) 0
            \<and> ConsumerConfig.num_replicas info_config \<noteq> NatsConsumerConfig.num_replicas consumerConfiguration
         then
           (if js_gt (NatsConsumerConfig.num_replicas consumerConfiguration) 1
            then (case info nc of
                    None \<Rightarrow> Inl TypeError
                  | Some server \<Rightarrow>
                      if cluster server = None
                      then Inr ((info_config, updatesDetected),
                                [Log WARN [Str ''replicas > 1 is not possible in non clustered mode'']])
                      else Inr (applied, []))
            else Inr (applied, []))
         else Inr ((info_config, updatesDetected), []))"

text \<open>The body of the \<open>try\<close> of \<open>updateConsumer\<close> (lines 134 to 158).\<close>

definition updateConsumer_try ::
  "broker \<Rightarrow> NatsConnection \<Rightarrow> string \<Rightarrow> string \<Rightarrow> NatsConsumerConfig \<Rightarrow> event list
     \<Rightarrow> (js_error + unit) \<times> event list" where
  "updateConsumer_try jsm nc streamName consumerName consumerConfiguration h =
     (let e1 = [BrokerCall (ConsumersInfo streamName consumerName)] in
      case consumers_info jsm h streamName consumerName of
        Inl err \<Rightarrow> (Inl err, e1)
      | Inr None \<Rightarrow> (Inr (), e1)
      | Inr (Some info_config) \<Rightarrow>
          (let acked = updateConsumer_ack_wait consumerConfiguration info_config;
               e2 = e1 @ [BrokerCall (StreamsInfo streamName)] in
           case streams_info jsm (h @ e1) streamName of
             Inl err \<Rightarrow> (Inl err, e2)
           | Inr streamInfo \<Rightarrow>
               (case updateConsumer_inherit consumerConfiguration streamInfo (fst acked) of
                  Inl err \<Rightarrow> (Inl err, e2)
                | Inr info_config2 \<Rightarrow>
                    (case updateConsumer_replicas nc consumerConfiguration (info_config2, snd acked) of
                       Inl err \<Rightarrow> (Inl err, e2)
                     | Inr ((info_config3, updatesDetected), e3) \<Rightarrow>
                         if updatesDetected
                         then
                           (let e4 = e2 @ e3 @ [BrokerCall (ConsumersUpdate streamName consumerName info_config3)] in
                            case consumers_update jsm (h @ e2 @ e3) streamName consumerName info_config3 of
                              Inl err \<Rightarrow> (Inl err, e4)
                            | Inr _ \<Rightarrow>
                                (Inr (),
                                 e4 @ [Log INFO [Str (''consumer updated successfully, consumerName: '' @ consumerName)]]))
                         else (Inr (), e2 @ e3)))))"

text \<open>
  \<open>updateConsumer\<close>: the result is true when a consumer has to be created. A \<open>NatsError\<close>
  is logged; its code 10014 means that the consumer is not found; reading the code of a
  \<open>NatsError\<close> without \<open>api_error\<close> throws out of the \<open>catch\<close>.
\<close>

definition updateConsumer ::
  "broker \<Rightarrow> NatsConnection \<Rightarrow> string \<Rightarrow> string \<Rightarrow> NatsConsumerConfig \<Rightarrow> event list
     \<Rightarrow> (js_error + bool) \<times> event list" where
  "updateConsumer jsm nc streamName consumerName consumerConfiguration h =
     (case updateConsumer_try jsm nc streamName consumerName consumerConfiguration h of
        (Inr _, e) \<Rightarrow> (Inr False, e)
      | (Inl (NatsError api_error), e) \<Rightarrow>
          (let e' = e @ [Log ERROR [Str ''error occurred due to :'', Err (NatsError api_error)]] in
           case api_error of
             None \<Rightarrow> (Inl TypeError, e')
           | Some err_code \<Rightarrow> if err_code = 10014 then (Inr True, e') else (Inr False, e'))
      | (Inl _, e) \<Rightarrow> (Inr False, e))"

section \<open>Subscription\<close>

text \<open>
  Lines 86 to 110 of \<open>Subscribe\<close>: the creation of the consumer. Everything thrown inside
  is caught and logged. The assignment of line 92 changes \<open>consumerConfiguration\<close>, the entry
  of the table itself, so the changed entry is returned with the events.
\<close>

definition Subscribe_createConsumer ::
  "broker \<Rightarrow> NatsConnection \<Rightarrow> string \<Rightarrow> string \<Rightarrow> string \<Rightarrow> string \<Rightarrow> string
     \<Rightarrow> NatsConsumerConfig \<Rightarrow> event list \<Rightarrow> NatsConsumerConfig \<times> event list" where
  "Subscribe_createConsumer jsm nc topic streamName consumerName queueName inbox consumerConfiguration h =
     (let warning = Log WARN [Str ''replicas > 1 is not possible in non clustered mode''];
          failed = (\<lambda>err. Log ERROR [Str ''error occurred while adding consumer'', Err err]);
          guard =
            (if js_gt (NatsConsumerConfig.num_replicas consumerConfiguration) 1
             then (case info nc of
                     None \<Rightarrow> (Inl TypeError, consumerConfiguration, [])
                   | Some server \<Rightarrow>
                       if cluster server = None
                       then
                         (let e1 = [warning, BrokerCall (StreamsInfo streamName)] in
                          case streams_info jsm (h @ [warning]) streamName of
                            Inl err \<Rightarrow> (Inl err, consumerConfiguration, e1)
                          | Inr None \<Rightarrow> (Inr (), consumerConfiguration, e1)
                          | Inr (Some streamInfo_config) \<Rightarrow>
                              (Inr (),
                               consumerConfiguration\<lparr>NatsConsumerConfig.num_replicas :=
                                  StreamConfig.num_replicas streamInfo_config\<rparr>,
                               e1))
                       else (Inr (), consumerConfiguration, []))
             else (Inr (), consumerConfiguration, []))
      in case guard of
           (Inl err, consumerConfiguration', e1) \<Rightarrow> (consumerConfiguration', e1 @ [failed err])
         | (Inr _, consumerConfiguration', e1) \<Rightarrow>
             (let added =
                    \<lparr>ConsumerConfig.name = consumerName,
                     deliver_subject = inbox,
                     durable_name = consumerName,
                     ack_wait = NatsConsumerConfig.ack_wait consumerConfiguration',
                     num_replicas = NatsConsumerConfig.num_replicas consumerConfiguration',
                     filter_subject = topic,
                     deliver_group = queueName,
                     ack_policy = Explicit,
                     deliver_policy = Last\<rparr>;
                  e2 = e1 @ [BrokerCall (ConsumersAdd streamName added)] in
              case consumers_add jsm (h @ e1) streamName added of
                Inl err \<Rightarrow> (consumerConfiguration', e2 @ [failed err])
              | Inr _ \<Rightarrow> (consumerConfiguration', e2 @ [Log INFO [Str ''consumer added successfully'']])))"

text \<open>
  One pass through the \<open>try\<close> of the retry loop (lines 74 to 116): \<open>Inr\<close> is the \<open>break\<close>
  after a successful subscription, \<open>Inl\<close> what was thrown to the \<open>catch\<close> of line 117.
\<close>

definition Subscribe_attempt ::
  "broker \<Rightarrow> NatsConnection \<Rightarrow> string \<Rightarrow> string \<Rightarrow> string \<Rightarrow> string \<Rightarrow> string \<Rightarrow> ConsumerOpts
     \<Rightarrow> NatsConsumerConfig \<Rightarrow> StreamConfig \<Rightarrow> event list
     \<Rightarrow> (js_error + unit) \<times> NatsConsumerConfig \<times> StreamConfig \<times> event list" where
  "Subscribe_attempt jsm nc topic streamName consumerName queueName inbox consumerOptsDetails
       consumerConfiguration streamConfigParsed h =
     (case addOrUpdateStream jsm streamName streamConfigParsed h of
        (Inl err, streamConfigParsed', e1) \<Rightarrow> (Inl err, consumerConfiguration, streamConfigParsed', e1)
      | (Inr _, streamConfigParsed', e1) \<Rightarrow>
          (case updateConsumer jsm nc streamName consumerName consumerConfiguration (h @ e1) of
             (Inl err, e2) \<Rightarrow> (Inl err, consumerConfiguration, streamConfigParsed', e1 @ e2)
           | (Inr createNewConsumer, e2) \<Rightarrow>
               (let created =
                      (if createNewConsumer
                       then Subscribe_createConsumer jsm nc topic streamName consumerName queueName inbox
                              consumerConfiguration (h @ e1 @ e2)
                       else (consumerConfiguration, []));
                    e3 = e1 @ e2 @ snd created;
                    e4 = e3 @ [BrokerCall (JsSubscribe topic consumerOptsDetails)] in
                case subscribe jsm (h @ e3) topic consumerOptsDetails of
                  Inl err \<Rightarrow> (Inl err, fst created, streamConfigParsed', e4)
                | Inr _ \<Rightarrow>
                    (Inr (), fst created, streamConfigParsed',
                     e4 @ [Log INFO [Str ''subscribed to nats successfully'']]))))"

text \<open>
  The retry loop (lines 73 to 127), from the current value of \<open>attempts\<close>. A failed pass
  is logged and counted; after the last one the exhaustion is logged, after any other the
  loop sleeps five seconds. The table entry and the desired stream configuration keep the
  changes of earlier passes.
\<close>

function Subscribe_loop ::
  "broker \<Rightarrow> NatsConnection \<Rightarrow> string \<Rightarrow> string \<Rightarrow> string \<Rightarrow> string \<Rightarrow> string \<Rightarrow> ConsumerOpts
     \<Rightarrow> nat \<Rightarrow> nat \<Rightarrow> NatsConsumerConfig \<Rightarrow> StreamConfig \<Rightarrow> event list
     \<Rightarrow> NatsConsumerConfig \<times> event list" where
  "Subscribe_loop jsm nc topic streamName consumerName queueName inbox consumerOptsDetails
       maxAttempts attempts consumerConfiguration streamConfigParsed h =
     (if attempts < maxAttempts
      then
        (case Subscribe_attempt jsm nc topic streamName consumerName queueName inbox consumerOptsDetails
                consumerConfiguration streamConfigParsed h of
           (Inr _, consumerConfiguration', streamConfigParsed', e1) \<Rightarrow> (consumerConfiguration', e1)
         | (Inl err, consumerConfiguration', streamConfigParsed', e1) \<Rightarrow>
             (let e2 = e1 @ [Log ERROR [Str ''unsuccessful in subscribing to NATS'', Err err]]
                         @ (if attempts + 1 = maxAttempts
                            then [Log ERROR [Str ''Maximum restart attempts reached. Exiting loop.'']]
                            else [Sleep 5000]);
                  rest = Subscribe_loop jsm nc topic streamName consumerName queueName inbox
                           consumerOptsDetails maxAttempts (attempts + 1)
                           consumerConfiguration' streamConfigParsed' (h @ e2)
              in (fst rest, e2 @ snd rest)))
      else (consumerConfiguration, []))"
  by pat_completeness auto
termination
  by (relation "measure (\<lambda>(jsm, nc, topic, streamName, consumerName, queueName, inbox,
                           consumerOptsDetails, maxAttempts, attempts, rest). maxAttempts - attempts)")
     auto

text \<open>
  \<open>Subscribe\<close>. \<open>inbox\<close> is the address returned by \<open>createInbox\<close>. A topic without a
  binding, a consumer without an entry and a stream without an entry each throw on the first
  property read (lines 42, 51 and 231), before the loop. The handler is only wired into the
  delivery callback (\<open>Subscribe_callback\<close> below) and takes no part here. The result is what
  the call throws or returns, the table of consumer configurations with the entry as the
  loop left it, and the events.
\<close>

definition Subscribe ::
  "utils \<Rightarrow> broker \<Rightarrow> NatsConnection \<Rightarrow> string \<Rightarrow> string \<Rightarrow> event list
     \<Rightarrow> (js_error + unit) \<times> (string \<rightharpoonup> NatsConsumerConfig) \<times> event list" where
  "Subscribe u jsm nc inbox topic h =
     (case NatsTopicMapping u topic of
        None \<Rightarrow> (Inl TypeError, NatsConsumerWiseConfigMapping u, [])
      | Some natsTopicConfig \<Rightarrow>
          (let streamName = topic_streamName natsTopicConfig;
               consumerName = topic_consumerName natsTopicConfig;
               queueName = topic_queueName natsTopicConfig in
           case NatsConsumerWiseConfigMapping u consumerName of
             None \<Rightarrow> (Inl TypeError, NatsConsumerWiseConfigMapping u, [])
           | Some consumerConfiguration \<Rightarrow>
               (let consumerOptsDetails =
                      \<lparr>config =
                         \<lparr>ConsumerConfig.name = consumerName,
                          deliver_subject = inbox,
                          durable_name = consumerName,
                          ack_wait = NatsConsumerConfig.ack_wait consumerConfiguration,
                          num_replicas = NatsConsumerConfig.num_replicas consumerConfiguration,
                          filter_subject = topic,
                          deliver_group = queueName,
                          ack_policy = Explicit,
                          deliver_policy = Last\<rparr>,
                       stream = streamName,
                       queue = queueName\<rparr> in
                case NatsStreamWiseConfigMapping u streamName of
                  None \<Rightarrow> (Inl TypeError, NatsConsumerWiseConfigMapping u, [])
                | Some streamConfiguration \<Rightarrow>
                    (let final = Subscribe_loop jsm nc topic streamName consumerName queueName inbox
                                  consumerOptsDetails (numberOfRetries u) 0 consumerConfiguration
                                  (getStreamConfig u streamConfiguration streamName) h
                     in (Inr (), (NatsConsumerWiseConfigMapping u)(consumerName \<mapsto> fst final), snd final)))))"

section \<open>Delivery\<close>

text \<open>
  \<open>JSON.stringify\<close> of a string: the text between double quotes, with the double quote,
  the backslash and the control characters escaped. A \<open>char\<close> stands for a code unit below
  256. \<open>CHR 0x22\<close> is the double quote and \<open>CHR 0x5C\<close> the backslash.
\<close>

definition hex_digit :: "nat \<Rightarrow> char" where
  "hex_digit n = ''0123456789abcdef'' ! (n mod 16)"

definition json_escape :: "char \<Rightarrow> string" where
  "json_escape c =
     (if c = CHR 0x08 then [CHR 0x5C, CHR ''b'']
      else if c = CHR 0x09 then [CHR 0x5C, CHR ''t'']
      else if c = CHR 0x0A then [CHR 0x5C, CHR ''n'']
      else if c = CHR 0x0C then [CHR 0x5C, CHR ''f'']
      else if c = CHR 0x0D then [CHR 0x5C, CHR ''r'']
      else if c = CHR 0x22 then [CHR 0x5C, CHR 0x22]
      else if c = CHR 0x5C then [CHR 0x5C, CHR 0x5C]
      else if (of_char c :: nat) < 32
      then [CHR 0x5C, CHR ''u'', CHR ''0'', CHR ''0'',
            hex_digit (of_char c div 16), hex_digit (of_char c mod 16)]
      else [c])"

definition JSON_stringify :: "string \<Rightarrow> string" where
  "JSON_stringify s = CHR 0x22 # concat (map json_escape s) @ [CHR 0x22]"

text \<open>
  \<open>getJsonString\<close>: the payload bytes decoded by the string codec of the broker client
  (a parameter, which may throw), then passed through \<open>JSON.stringify\<close>.
\<close>

definition getJsonString :: "(string \<Rightarrow> js_error + string) \<Rightarrow> string \<Rightarrow> js_error + string" where
  "getJsonString sc_decode bytes =
     (case sc_decode bytes of Inl err \<Rightarrow> Inl err | Inr text \<Rightarrow> Inr (JSON_stringify text))"

record JsMsg =
  data :: string

text \<open>
  The delivery callback of \<open>Subscribe\<close> (lines 57 to 65). \<open>callback\<close> is the caller's
  handler, which returns or throws. Without a message (\<open>msg\<close> is \<open>null\<close>) reading \<open>msg.data\<close>
  throws, in the \<open>try\<close> and again in the \<open>catch\<close>.
\<close>

definition Subscribe_callback ::
  "(string \<Rightarrow> js_error + string) \<Rightarrow> (string \<Rightarrow> js_error + unit) \<Rightarrow> JsMsg option
     \<Rightarrow> (js_error + unit) \<times> event list" where
  "Subscribe_callback sc_decode callback msg =
     (case msg of
        None \<Rightarrow> (Inl TypeError, [])
      | Some m \<Rightarrow>
          (let failed = (\<lambda>err. Log ERROR [Str ''msg: '', Data (data m), Str '' err: '', Err err]) in
           case getJsonString sc_decode (data m) of
             Inl err \<Rightarrow> (Inr (), [failed err, MsgOp Ack])
           | Inr msgString \<Rightarrow>
               (case callback msgString of
                  Inl err \<Rightarrow> (Inr (), [Handler msgString, failed err, MsgOp Ack])
                | Inr _ \<Rightarrow> (Inr (), [Handler msgString, MsgOp Ack]))))"

text \<open>
  The delivery callback of \<open>Subscribe\<close> in \<open>src/pubSub/pubSub.ts\<close> (lines 71 to 80), where
  the acknowledgement is the last statement of the \<open>try\<close>.
\<close>

definition pubSub_Subscribe_callback ::
  "(string \<Rightarrow> js_error + string) \<Rightarrow> (string \<Rightarrow> js_error + unit) \<Rightarrow> JsMsg option
     \<Rightarrow> (js_error + unit) \<times> event list" where
  "pubSub_Subscribe_callback sc_decode callback msg =
     (let failed = (\<lambda>err. Log ERROR [Str ''error occurred due to this:'', Err err]) in
      case msg of
        None \<Rightarrow> (Inr (), [failed TypeError])
      | Some m \<Rightarrow>
          (case getJsonString sc_decode (data m) of
             Inl err \<Rightarrow> (Inr (), [failed err])
           | Inr msgString \<Rightarrow>
               (case callback msgString of
                  Inl err \<Rightarrow> (Inr (), [Handler msgString, failed err])
                | Inr _ \<Rightarrow> (Inr (), [Handler msgString, MsgOp Ack]))))"

section \<open>Observations on the events\<close>

text \<open>The requests sent to the broker, in order.\<close>

fun broker_call :: "event \<Rightarrow> call option" where
  "broker_call (BrokerCall c) = Some c"
| "broker_call _ = None"

definition calls :: "event list \<Rightarrow> call list" where
  "calls es = List.map_filter broker_call es"

text \<open>The operations on the delivered message, and the arguments given to the handler.\<close>

fun message_op :: "event \<Rightarrow> msg_op option" where
  "message_op (MsgOp x) = Some x"
| "message_op _ = None"

definition msg_ops :: "event list \<Rightarrow> msg_op list" where
  "msg_ops es = List.map_filter message_op es"

fun handler_arg :: "event \<Rightarrow> string option" where
  "handler_arg (Handler s) = Some s"
| "handler_arg _ = None"

definition handler_args :: "event list \<Rightarrow> string list" where
  "handler_args es = List.map_filter handler_arg es"

text \<open>
  The marks the retry loop leaves: the line logged by its \<open>catch\<close> for a failed pass, the
  sleep, and the line logged when the attempts are used up.
\<close>

datatype retry_mark = Failed | Slept nat | Exhausted

fun retry_mark_of :: "event \<Rightarrow> retry_mark option" where
  "retry_mark_of (Sleep ms) = Some (Slept ms)"
| "retry_mark_of (Log lv args) =
     (if lv = ERROR \<and> args = [Str ''Maximum restart attempts reached. Exiting loop.'']
      then Some Exhausted
      else if lv = ERROR \<and> length args = 2 \<and> hd args = Str ''unsuccessful in subscribing to NATS''
      then Some Failed
      else None)"
| "retry_mark_of _ = None"

definition retry_marks :: "event list \<Rightarrow> retry_mark list" where
  "retry_marks es = List.map_filter retry_mark_of es"

text \<open>The warning of the guard against replicas on a connection without cluster.\<close>

definition replicas_warning :: event where
  "replicas_warning = Log WARN [Str ''replicas > 1 is not possible in non clustered mode'']"

section \<open>Concrete environments\<close>

text \<open>A codec that decodes every payload to itself, a handler that returns and one that throws.\<close>

definition decode_ascii :: "string \<Rightarrow> js_error + string" where
  "decode_ascii bytes = Inr bytes"

definition handler_ok :: "string \<Rightarrow> js_error + unit" where
  "handler_ok s = Inr ()"

definition handler_throws :: "string \<Rightarrow> js_error + unit" where
  "handler_throws s = Inl OtherError"

definition msg_hi :: JsMsg where
  "msg_hi = \<lparr>data = ''hi''\<rparr>"

text \<open>
  A broker that answers the same at every time: \<open>si\<close> to a stream info request, \<open>ci\<close> to a
  consumer info request and \<open>r\<close> to every other request.
\<close>

definition broker_const ::
  "js_error + StreamConfig option \<Rightarrow> js_error + ConsumerConfig option \<Rightarrow> js_error + unit \<Rightarrow> broker" where
  "broker_const si ci r =
     \<lparr>streams_info = (\<lambda>h streamName. si),
      streams_update = (\<lambda>h streamName cfg. r),
      streams_add = (\<lambda>h cfg. r),
      consumers_info = (\<lambda>h streamName consumerName. ci),
      consumers_update = (\<lambda>h streamName consumerName cfg. r),
      consumers_add = (\<lambda>h streamName cfg. r),
      subscribe = (\<lambda>h topic opts. r)\<rparr>"

text \<open>The two codes the service tells apart: stream not found and consumer not found.\<close>

definition stream_not_found :: js_error where
  "stream_not_found = NatsError (Some 10059)"

definition consumer_not_found :: js_error where
  "consumer_not_found = NatsError (Some 10014)"

text \<open>A connection to a single server without cluster information.\<close>

definition nc_single :: NatsConnection where
  "nc_single = \<lparr>info = Some \<lparr>cluster = None\<rparr>\<rparr>"

text \<open>
  A configuration with one topic \<open>t\<close> on stream \<open>s\<close>, consumer \<open>c\<close> and queue \<open>q\<close>, an
  acknowledgement wait of 120, the given desired replica count and three attempts.
\<close>

definition utils_example :: "int option \<Rightarrow> utils" where
  "utils_example replicas =
     \<lparr>NatsTopicMapping =
        [''t'' \<mapsto> \<lparr>topic_streamName = ''s'', topic_consumerName = ''c'', topic_queueName = ''q''\<rparr>],
      NatsConsumerWiseConfigMapping =
        [''c'' \<mapsto> \<lparr>NatsConsumerConfig.ack_wait = 120, num_replicas = replicas\<rparr>],
      NatsStreamWiseConfigMapping = [''s'' \<mapsto> \<lparr>NatsStreamConfig.max_age = 100\<rparr>],
      GetStreamSubjects = (\<lambda>streamName. [''t'']),
      numberOfRetries = 3\<rparr>"

text \<open>A stream on the broker with the given replica count, and a consumer likewise.\<close>

definition stream_with :: "int \<Rightarrow> StreamConfig" where
  "stream_with replicas =
     \<lparr>StreamConfig.name = Some ''s'', max_age = 100, subjects = [Some ''t''],
      num_replicas = Some replicas\<rparr>"

definition consumer_with :: "int \<Rightarrow> ConsumerConfig" where
  "consumer_with replicas =
     \<lparr>ConsumerConfig.name = ''c'', deliver_subject = ''old-inbox'', durable_name = ''c'',
      ack_wait = 120, num_replicas = Some replicas, filter_subject = ''t'',
      deliver_group = ''q'', ack_policy = Explicit, deliver_policy = Last\<rparr>"

text \<open>The desired consumer configuration of the example, with the given replica count.\<close>

definition desired_consumer :: "int \<Rightarrow> NatsConsumerConfig" where
  "desired_consumer replicas = \<lparr>NatsConsumerConfig.ack_wait = 120, num_replicas = Some replicas\<rparr>"

text \<open>
  The desired stream configuration and the consumer options that \<open>Subscribe\<close> builds in
  the example, the latter for the given desired replica count.
\<close>

definition desired_stream :: StreamConfig where
  "desired_stream =
     \<lparr>StreamConfig.name = None, max_age = 100, subjects = [Some ''t''], num_replicas = None\<rparr>"

definition added_consumer :: "int \<Rightarrow> ConsumerConfig" where
  "added_consumer replicas =
     \<lparr>ConsumerConfig.name = ''c'', deliver_subject = ''inbox'', durable_name = ''c'',
      ack_wait = 120, num_replicas = Some replicas, filter_subject = ''t'',
      deliver_group = ''q'', ack_policy = Explicit, deliver_policy = Last\<rparr>"

definition opts_example :: "int \<Rightarrow> ConsumerOpts" where
  "opts_example replicas = \<lparr>config = added_consumer replicas, stream = ''s'', queue = ''q''\<rparr>"

section \<open>Properties\<close>

subsection \<open>The requests in a list of events\<close>

lemma calls_Nil [simp]: "calls [] = []"
  by (simp add: calls_def)

lemma calls_Cons [simp]:
  "calls (x # xs) = (case broker_call x of None \<Rightarrow> calls xs | Some c \<Rightarrow> c # calls xs)"
  by (simp add: calls_def split: option.splits)

lemma calls_append [simp]: "calls (xs @ ys) = calls xs @ calls ys"
  by (induction xs) (simp_all split: option.splits)

text \<open>The \<open>catch\<close> of \<open>updateConsumer\<close> sends nothing and logs no warning.\<close>

lemma updateConsumer_calls:
  "calls (snd (updateConsumer jsm nc streamName consumerName consumerConfiguration h))
   = calls (snd (updateConsumer_try jsm nc streamName consumerName consumerConfiguration h))"
  by (simp add: updateConsumer_def Let_def
      split: prod.splits sum.splits js_error.splits option.splits)

lemma updateConsumer_warning:
  "replicas_warning \<in> set (snd (updateConsumer jsm nc streamName consumerName consumerConfiguration h))
   \<longleftrightarrow> replicas_warning \<in> set (snd (updateConsumer_try jsm nc streamName consumerName consumerConfiguration h))"
  by (auto simp add: updateConsumer_def replicas_warning_def Let_def
      split: prod.splits sum.splits js_error.splits option.splits)

subsection \<open>The marks of the retry loop\<close>

declare Subscribe_loop.simps [simp del]

lemma retry_marks_Nil [simp]: "retry_marks [] = []"
  by (simp add: retry_marks_def)

lemma retry_marks_Cons [simp]:
  "retry_marks (x # xs) =
     (case retry_mark_of x of None \<Rightarrow> retry_marks xs | Some m \<Rightarrow> m # retry_marks xs)"
  by (simp add: retry_marks_def split: option.splits)

lemma retry_marks_append [simp]: "retry_marks (xs @ ys) = retry_marks xs @ retry_marks ys"
  by (induction xs) (simp_all split: option.splits)

text \<open>No phase of a pass leaves a mark of the loop.\<close>

lemma addOrUpdateStream_marks:
  "retry_marks (snd (snd (addOrUpdateStream jsm streamName streamConfig h))) = []"
  by (simp add: addOrUpdateStream_def Let_def
      split: sum.splits option.splits js_error.splits prod.splits bool.splits)

lemma updateConsumer_replicas_marks:
  "updateConsumer_replicas nc consumerConfiguration cu = Inr (r, e) \<Longrightarrow> retry_marks e = []"
  by (auto simp: updateConsumer_replicas_def Let_def split: if_splits option.splits prod.splits)

lemma updateConsumer_try_marks:
  "retry_marks (snd (updateConsumer_try jsm nc streamName consumerName consumerConfiguration h)) = []"
  by (auto simp: updateConsumer_try_def Let_def dest: updateConsumer_replicas_marks
      split: sum.splits option.splits prod.splits)

lemma updateConsumer_marks:
  "retry_marks (snd (updateConsumer jsm nc streamName consumerName consumerConfiguration h)) = []"
  using updateConsumer_try_marks [of jsm nc streamName consumerName consumerConfiguration h]
  by (auto simp: updateConsumer_def Let_def
      split: sum.splits option.splits prod.splits js_error.splits)

lemma Subscribe_createConsumer_marks:
  "retry_marks (snd (Subscribe_createConsumer jsm nc topic streamName consumerName queueName inbox
                       consumerConfiguration h)) = []"
  by (simp add: Subscribe_createConsumer_def Let_def split: sum.splits option.splits prod.splits)

lemma Subscribe_attempt_marks:
  "retry_marks (snd (snd (snd (Subscribe_attempt jsm nc topic streamName consumerName queueName inbox
                                 opts consumerConfiguration streamConfig h)))) = []"
proof -
  obtain r1 sc1 e1 where A: "addOrUpdateStream jsm streamName streamConfig h = (r1, sc1, e1)"
    by (cases "addOrUpdateStream jsm streamName streamConfig h") auto
  obtain r2 e2 where
    U: "updateConsumer jsm nc streamName consumerName consumerConfiguration (h @ e1) = (r2, e2)"
    by (cases "updateConsumer jsm nc streamName consumerName consumerConfiguration (h @ e1)") auto
  have e1: "retry_marks e1 = []"
    using addOrUpdateStream_marks [of jsm streamName streamConfig h] A by simp
  have e2: "retry_marks e2 = []"
    using updateConsumer_marks [of jsm nc streamName consumerName consumerConfiguration "h @ e1"] U
    by simp
  show ?thesis
    by (simp add: Subscribe_attempt_def A U e1 e2 Let_def Subscribe_createConsumer_marks
        split: sum.splits)
qed

text \<open>A pass ends in the \<open>catch\<close> of the loop when the broker never accepts a subscription.\<close>

lemma Subscribe_attempt_fails:
  assumes "\<forall>h' t' o'. isl (subscribe jsm h' t' o')"
  shows "isl (fst (Subscribe_attempt jsm nc topic streamName consumerName queueName inbox opts
                     consumerConfiguration streamConfig h))"
proof -
  obtain r1 sc1 e1 where A: "addOrUpdateStream jsm streamName streamConfig h = (r1, sc1, e1)"
    by (cases "addOrUpdateStream jsm streamName streamConfig h") auto
  obtain r2 e2 where
    U: "updateConsumer jsm nc streamName consumerName consumerConfiguration (h @ e1) = (r2, e2)"
    by (cases "updateConsumer jsm nc streamName consumerName consumerConfiguration (h @ e1)") auto
  have S: "\<And>h'. subscribe jsm h' topic opts \<noteq> Inr ()"
    using assms by (metis sum.disc(2))
  show ?thesis
    by (simp add: Subscribe_attempt_def A U Let_def S split: sum.splits)
qed

text \<open>The marks of the loop with \<open>k\<close> passes left, by induction on \<open>k\<close>.\<close>

lemma Subscribe_loop_marks:
  assumes "\<forall>h' t' o'. isl (subscribe jsm h' t' o')"
  shows "attempts + k = maxAttempts \<Longrightarrow>
    retry_marks (snd (Subscribe_loop jsm nc topic streamName consumerName queueName inbox opts
                        maxAttempts attempts consumerConfiguration streamConfig h)) =
      (if k = 0 then [] else concat (replicate (k - 1) [Failed, Slept 5000]) @ [Failed, Exhausted])"
proof (induction k arbitrary: attempts consumerConfiguration streamConfig h)
  case 0
  then show ?case by (subst Subscribe_loop.simps) simp
next
  case (Suc k)
  obtain r cc' sc' e1 where
    A: "Subscribe_attempt jsm nc topic streamName consumerName queueName inbox opts
          consumerConfiguration streamConfig h = (r, cc', sc', e1)"
    by (cases "Subscribe_attempt jsm nc topic streamName consumerName queueName inbox opts
                 consumerConfiguration streamConfig h") auto
  have "isl r"
    using Subscribe_attempt_fails [OF assms, of nc topic streamName consumerName queueName inbox opts
        consumerConfiguration streamConfig h] A by simp
  then obtain err where r: "r = Inl err" by (cases r) auto
  have e1: "retry_marks e1 = []"
    using Subscribe_attempt_marks [of jsm nc topic streamName consumerName queueName inbox opts
        consumerConfiguration streamConfig h] A by simp
  have lt: "attempts < maxAttempts" using Suc.prems by simp
  have next_k: "Suc attempts + k = maxAttempts" using Suc.prems by simp
  note IH = Suc.IH [OF next_k]
  show ?case
  proof (cases k)
    case 0
    then have last: "maxAttempts = Suc attempts" using next_k by simp
    show ?thesis
      using IH by (subst Subscribe_loop.simps) (simp add: A r e1 last 0 Let_def)
  next
    case (Suc k')
    then have more: "Suc attempts \<noteq> maxAttempts" using next_k by simp
    show ?thesis
      by (subst Subscribe_loop.simps) (simp add: A r e1 lt more IH Suc Let_def)
  qed
qed

lemma count_retry_pattern:
  "count_list (concat (replicate k [Failed, Slept 5000]) @ [Failed, Exhausted]) Failed = Suc k
   \<and> count_list (concat (replicate k [Failed, Slept 5000]) @ [Failed, Exhausted]) (Slept 5000) = k"
  by (induction k) simp_all

subsection \<open>The retry bound\<close>

text \<open>
  C1. For a topic with a binding whose consumer and stream have their entries in the
  configuration tables, and a broker that rejects every subscription: \<open>Subscribe\<close> returns
  normally; the loop makes exactly \<open>numberOfRetries\<close> passes, each ending in its \<open>catch\<close>;
  it sleeps 5000 milliseconds after every pass but the last, after which it logs that the
  attempts are used up and sleeps no more.
\<close>

theorem Subscribe_retry_bound:
  assumes "NatsTopicMapping u topic = Some natsTopicConfig"
    and "NatsConsumerWiseConfigMapping u (topic_consumerName natsTopicConfig) = Some consumerConfiguration"
    and "NatsStreamWiseConfigMapping u (topic_streamName natsTopicConfig) = Some streamConfiguration"
    and "\<forall>h' t' o'. isl (subscribe jsm h' t' o')"
  shows "fst (Subscribe u jsm nc inbox topic h) = Inr ()
     \<and> retry_marks (snd (snd (Subscribe u jsm nc inbox topic h))) =
         (if numberOfRetries u = 0 then []
          else concat (replicate (numberOfRetries u - 1) [Failed, Slept 5000]) @ [Failed, Exhausted])
     \<and> count_list (retry_marks (snd (snd (Subscribe u jsm nc inbox topic h)))) Failed
         = numberOfRetries u
     \<and> count_list (retry_marks (snd (snd (Subscribe u jsm nc inbox topic h)))) (Slept 5000)
         = numberOfRetries u - 1"
proof -
  have m: "retry_marks (snd (snd (Subscribe u jsm nc inbox topic h))) =
         (if numberOfRetries u = 0 then []
          else concat (replicate (numberOfRetries u - 1) [Failed, Slept 5000]) @ [Failed, Exhausted])"
    using Subscribe_loop_marks [OF assms(4), of 0 "numberOfRetries u" "numberOfRetries u"]
    by (simp add: Subscribe_def assms(1-3) Let_def)
  have r: "fst (Subscribe u jsm nc inbox topic h) = Inr ()"
    by (simp add: Subscribe_def assms(1-3) Let_def)
  show ?thesis
  proof (cases "numberOfRetries u")
    case 0
    with m r show ?thesis by simp
  next
    case (Suc k)
    with m r count_retry_pattern [of k] show ?thesis by simp
  qed
qed

theorem Subscribe_retry_bound_witness:
  "fst (Subscribe (utils_example (Some 0))
          (broker_const (Inl OtherError) (Inl OtherError) (Inl OtherError))
          nc_single ''inbox'' ''t'' []) = Inr ()
   \<and> retry_marks (snd (snd (Subscribe (utils_example (Some 0))
          (broker_const (Inl OtherError) (Inl OtherError) (Inl OtherError))
          nc_single ''inbox'' ''t'' [])))
      = [Failed, Slept 5000, Failed, Slept 5000, Failed, Exhausted]"
  using Subscribe_retry_bound [of "utils_example (Some 0)" "''t''"
      "\<lparr>topic_streamName = ''s'', topic_consumerName = ''c'', topic_queueName = ''q''\<rparr>"
      "\<lparr>NatsConsumerConfig.ack_wait = 120, num_replicas = Some 0\<rparr>"
      "\<lparr>NatsStreamConfig.max_age = 100\<rparr>"
      "broker_const (Inl OtherError) (Inl OtherError) (Inl OtherError)" nc_single "''inbox''" "[]"]
  by (simp add: utils_example_def broker_const_def numeral_2_eq_2)

subsection \<open>An unknown topic\<close>

text \<open>
  C10. For a topic without a binding in the topic table, \<open>Subscribe\<close> throws the
  \<open>TypeError\<close> of reading a property of \<open>undefined\<close> to its caller before anything else
  happens: no request is sent to the broker, nothing is logged, the loop is not entered
  and the table of consumer configurations is as it was.
\<close>

theorem Subscribe_unknown_topic:
  "NatsTopicMapping u topic = None \<Longrightarrow>
   Subscribe u jsm nc inbox topic h = (Inl TypeError, NatsConsumerWiseConfigMapping u, [])"
  by (simp add: Subscribe_def)

theorem Subscribe_unknown_topic_witness:
  "Subscribe (utils_example (Some 0)) (broker_const (Inr None) (Inr None) (Inr ()))
     nc_single ''inbox'' ''other'' []
   = (Inl TypeError, NatsConsumerWiseConfigMapping (utils_example (Some 0)), [])"
  using Subscribe_unknown_topic [of "utils_example (Some 0)" "''other''"]
  by (simp add: utils_example_def)

subsection \<open>The configuration difference\<close>

text \<open>
  C6. On the actual configuration with \<open>max_age = 100\<close> and subjects \<open>["a"]\<close>, the desired
  configuration with \<open>max_age = 200\<close> and subjects \<open>["b"]\<close> changes the actual one to
  \<open>max_age = 200\<close>, subjects \<open>["a", "b"]\<close> and the result is true; the desired configuration
  with \<open>max_age = 0\<close> and subjects \<open>["a"]\<close> leaves the same actual configuration as it is
  and the result is false.
\<close>

theorem checkConfigChangeReqd_example:
  "checkConfigChangeReqd
     \<lparr>StreamConfig.name = n, max_age = 100, subjects = [Some ''a''], num_replicas = r\<rparr>
     \<lparr>StreamConfig.name = n', max_age = 200, subjects = [Some ''b''], num_replicas = r'\<rparr>
   = (True, \<lparr>StreamConfig.name = n, max_age = 200, subjects = [Some ''a'', Some ''b''], num_replicas = r\<rparr>)
   \<and> checkConfigChangeReqd
     \<lparr>StreamConfig.name = n, max_age = 100, subjects = [Some ''a''], num_replicas = r\<rparr>
     \<lparr>StreamConfig.name = n', max_age = 0, subjects = [Some ''a''], num_replicas = r'\<rparr>
   = (False, \<lparr>StreamConfig.name = n, max_age = 100, subjects = [Some ''a''], num_replicas = r\<rparr>)"
  by (simp add: checkConfigChangeReqd_def index0_def)

text \<open>
  A second comparison against the same desired configuration finds nothing to change and
  leaves the configuration as the first one left it.
\<close>

lemma checkConfigChangeReqd_twice:
  "checkConfigChangeReqd (snd (checkConfigChangeReqd actual desired)) desired
     = (False, snd (checkConfigChangeReqd actual desired))"
  by (simp add: checkConfigChangeReqd_def Let_def split: prod.splits if_splits)

text \<open>
  C7. For every actual configuration and every desired configuration with at least one
  subject, the second call of \<open>checkConfigChangeReqd\<close>, on the configuration the first call
  left, returns false; and when the broker reports that configuration for the stream, the
  second \<open>addOrUpdateStream\<close> with the same desired configuration sends the info request
  only, so no update request.
\<close>

theorem checkConfigChangeReqd_idempotent:
  assumes "subjects desired \<noteq> []"
    and "streams_info jsm h streamName = Inr (Some (snd (checkConfigChangeReqd actual desired)))"
  shows "fst (checkConfigChangeReqd (snd (checkConfigChangeReqd actual desired)) desired) = False
    \<and> calls (snd (snd (addOrUpdateStream jsm streamName desired h))) = [StreamsInfo streamName]"
  by (simp add: addOrUpdateStream_def assms(2) checkConfigChangeReqd_twice Let_def)

theorem checkConfigChangeReqd_idempotent_witness:
  "fst (checkConfigChangeReqd (snd (checkConfigChangeReqd (stream_with 1) (desired_stream\<lparr>StreamConfig.max_age := 200\<rparr>)))
          (desired_stream\<lparr>StreamConfig.max_age := 200\<rparr>)) = False
   \<and> calls (snd (snd (addOrUpdateStream
        (broker_const
           (Inr (Some (snd (checkConfigChangeReqd (stream_with 1) (desired_stream\<lparr>StreamConfig.max_age := 200\<rparr>)))))
           (Inr None) (Inr ()))
        ''s'' (desired_stream\<lparr>StreamConfig.max_age := 200\<rparr>) []))) = [StreamsInfo ''s'']"
  using checkConfigChangeReqd_idempotent [of "desired_stream\<lparr>StreamConfig.max_age := 200\<rparr>"
      "broker_const
         (Inr (Some (snd (checkConfigChangeReqd (stream_with 1) (desired_stream\<lparr>StreamConfig.max_age := 200\<rparr>)))))
         (Inr None) (Inr ())"
      "[]" "''s''" "stream_with 1"]
  by (simp add: broker_const_def desired_stream_def)

subsection \<open>Stream creation\<close>

text \<open>
  C8. When the info request for the stream throws a \<open>NatsError\<close> with code 10059,
  \<open>addOrUpdateStream\<close> returns normally and sends, after the info request, exactly one
  request: the creation of the desired configuration with its name set to \<open>streamName\<close>.
  For the configuration built by \<open>getStreamConfig\<close> that is the name \<open>streamName\<close>, all the
  subjects of the stream and the \<open>max_age\<close> of the table entry. No update request is sent.
\<close>

theorem addOrUpdateStream_creates:
  assumes "streams_info jsm h streamName = Inl (NatsError (Some 10059))"
  shows "fst (addOrUpdateStream jsm streamName streamConfig h) = Inr ()
    \<and> calls (snd (snd (addOrUpdateStream jsm streamName streamConfig h)))
      = [StreamsInfo streamName, StreamsAdd (streamConfig\<lparr>StreamConfig.name := Some streamName\<rparr>)]
    \<and> calls (snd (snd (addOrUpdateStream jsm streamName
                          (getStreamConfig u streamConfiguration streamName) h)))
      = [StreamsInfo streamName,
         StreamsAdd \<lparr>StreamConfig.name = Some streamName,
                     max_age = NatsStreamConfig.max_age streamConfiguration,
                     subjects = map Some (GetStreamSubjects u streamName),
                     num_replicas = None\<rparr>]"
  by (simp add: addOrUpdateStream_def assms getStreamConfig_def Let_def split: sum.splits)

theorem addOrUpdateStream_creates_witness:
  "calls (snd (snd (addOrUpdateStream
      (broker_const (Inl stream_not_found) (Inl consumer_not_found) (Inr ())) ''s''
      (getStreamConfig (utils_example (Some 0)) \<lparr>NatsStreamConfig.max_age = 100\<rparr> ''s'') [])))
   = [StreamsInfo ''s'',
      StreamsAdd \<lparr>StreamConfig.name = Some ''s'', max_age = 100, subjects = [Some ''t''],
                  num_replicas = None\<rparr>]"
  using addOrUpdateStream_creates [of "broker_const (Inl stream_not_found) (Inl consumer_not_found) (Inr ())"
      "[]" "''s''" desired_stream "utils_example (Some 0)" "\<lparr>NatsStreamConfig.max_age = 100\<rparr>"]
  by (simp add: broker_const_def stream_not_found_def utils_example_def getStreamConfig_def)


subsection \<open>Delivery of a message\<close>

lemma length_concat_json_escape: "length s \<le> length (concat (map json_escape s))"
  by (induction s) (auto simp: json_escape_def)

text \<open>The quoted text is longer than the text, so the two are never equal.\<close>

lemma JSON_stringify_differs: "JSON_stringify s \<noteq> s"
proof
  assume "JSON_stringify s = s"
  then have "length (JSON_stringify s) = length s" by simp
  with length_concat_json_escape [of s] show False by (simp add: JSON_stringify_def)
qed

text \<open>
  For every delivered message, the callback of the retrying \<open>Subscribe\<close> sends exactly
  one acknowledgement and nothing else to the message, whether the codec and the handler
  return or throw. The callback of \<open>Subscribe\<close> in \<open>src/pubSub/pubSub.ts\<close> sends the
  acknowledgement only when both the codec and the handler return, and nothing when either
  throws. Neither ever asks for a redelivery.
\<close>

lemma callback_acknowledges:
  "msg_ops (snd (Subscribe_callback sc_decode callback (Some m))) = [Ack]
   \<and> msg_ops (snd (pubSub_Subscribe_callback sc_decode callback (Some m))) =
       (case getJsonString sc_decode (data m) of
          Inl err \<Rightarrow> []
        | Inr msgString \<Rightarrow> (case callback msgString of Inl err \<Rightarrow> [] | Inr _ \<Rightarrow> [Ack]))"
  by (simp add: Subscribe_callback_def pubSub_Subscribe_callback_def msg_ops_def split: sum.splits)

text \<open>
  C2. Every delivered message is to be acknowledged exactly once, whether decoding and
  the handler succeed or throw. For the payload \<open>hi\<close> and a handler that throws, the
  callback of the retrying \<open>Subscribe\<close> sends its one acknowledgement, but the callback of
  \<open>Subscribe\<close> in \<open>src/pubSub/pubSub.ts\<close>, whose acknowledgement is the last statement of
  the \<open>try\<close>, invokes the handler, logs the error and sends no acknowledgement.
\<close>

theorem pubSub_callback_skips_ack:
  "pubSub_Subscribe_callback decode_ascii handler_throws (Some msg_hi)
     = (Inr (), [Handler [CHR 0x22, CHR ''h'', CHR ''i'', CHR 0x22],
                 Log ERROR [Str ''error occurred due to this:'', Err OtherError]])
   \<and> msg_ops (snd (pubSub_Subscribe_callback decode_ascii handler_throws (Some msg_hi))) = []
   \<and> msg_ops (snd (Subscribe_callback decode_ascii handler_throws (Some msg_hi))) = [Ack]"
  by (simp add: pubSub_Subscribe_callback_def Subscribe_callback_def getJsonString_def msg_ops_def
      decode_ascii_def handler_throws_def msg_hi_def JSON_stringify_def json_escape_def)

text \<open>
  C9, amended. For every delivered message whose payload the codec decodes, the handler
  is invoked once, with \<open>JSON.stringify\<close> of the decoded text: the text between double
  quotes with its special characters escaped, which is never the decoded text itself.
\<close>

theorem handler_gets_json_string:
  assumes "sc_decode (data m) = Inr text"
  shows "handler_args (snd (Subscribe_callback sc_decode callback (Some m))) = [JSON_stringify text]
    \<and> JSON_stringify text \<noteq> text"
  by (simp add: Subscribe_callback_def getJsonString_def handler_args_def assms
      JSON_stringify_differs split: sum.splits)

theorem handler_gets_json_string_witness:
  "handler_args (snd (Subscribe_callback decode_ascii handler_ok (Some msg_hi)))
     = [[CHR 0x22, CHR ''h'', CHR ''i'', CHR 0x22]]"
  using handler_gets_json_string [of decode_ascii msg_hi "''hi''" handler_ok]
  by (simp add: decode_ascii_def msg_hi_def JSON_stringify_def json_escape_def)

text \<open>
  For the payload \<open>hi\<close> the handler does not receive the text \<open>hi\<close>.
\<close>

theorem handler_text_counterexample:
  "handler_args (snd (Subscribe_callback decode_ascii handler_ok (Some msg_hi))) \<noteq> [''hi'']"
  by (simp add: Subscribe_callback_def getJsonString_def handler_args_def
      decode_ascii_def handler_ok_def msg_hi_def JSON_stringify_def json_escape_def)

subsection \<open>The replica count of a consumer\<close>

text \<open>The requests of the \<open>try\<close> of \<open>updateConsumer\<close> for a desired replica count of zero.\<close>

lemma updateConsumer_try_zero:
  assumes ci: "consumers_info jsm h s c = Inr (Some info_config)"
    and si: "streams_info jsm (h @ [BrokerCall (ConsumersInfo s c)]) s = Inr (Some stream_config)"
    and z: "NatsConsumerConfig.num_replicas cc = Some 0"
  shows "calls (snd (updateConsumer_try jsm nc s c cc h)) =
      [ConsumersInfo s c, StreamsInfo s] @
      (if NatsConsumerConfig.ack_wait cc > 0 \<and> ConsumerConfig.ack_wait info_config \<noteq> NatsConsumerConfig.ack_wait cc
       then [ConsumersUpdate s c
               (info_config\<lparr>ConsumerConfig.ack_wait := NatsConsumerConfig.ack_wait cc,
                            ConsumerConfig.num_replicas := StreamConfig.num_replicas stream_config\<rparr>)]
       else [])"
  by (simp add: updateConsumer_try_def ci si z updateConsumer_ack_wait_def updateConsumer_inherit_def
       updateConsumer_replicas_def js_gt_def Let_def split: sum.splits)

text \<open>
  The creation of the consumer when the guard of line 88 does not hold: the creation
  request comes first and carries the desired values.
\<close>

lemma Subscribe_createConsumer_plain:
  assumes z: "\<not> js_gt (NatsConsumerConfig.num_replicas cc) 1 \<or> (\<exists>cl. info nc = Some \<lparr>cluster = Some cl\<rparr>)"
  shows "Subscribe_createConsumer jsm nc topic s c q inbox cc h =
     (cc, BrokerCall (ConsumersAdd s \<lparr>ConsumerConfig.name = c, deliver_subject = inbox, durable_name = c,
          ack_wait = NatsConsumerConfig.ack_wait cc, num_replicas = NatsConsumerConfig.num_replicas cc,
          filter_subject = topic, deliver_group = q, ack_policy = Explicit, deliver_policy = Last\<rparr>) #
           (case consumers_add jsm h s \<lparr>ConsumerConfig.name = c, deliver_subject = inbox, durable_name = c,
          ack_wait = NatsConsumerConfig.ack_wait cc, num_replicas = NatsConsumerConfig.num_replicas cc,
          filter_subject = topic, deliver_group = q, ack_policy = Explicit, deliver_policy = Last\<rparr> of
              Inl err \<Rightarrow> [Log ERROR [Str ''error occurred while adding consumer'', Err err]]
            | Inr _ \<Rightarrow> [Log INFO [Str ''consumer added successfully'']]))"
  using z by (auto simp add: Subscribe_createConsumer_def Let_def split: sum.splits)

text \<open>
  C3, amended. With a desired replica count of zero: for an existing consumer,
  \<open>updateConsumer\<close> fetches the stream info right after the consumer info, and every
  consumer update it sends carries the replica count of the stream; for an absent
  consumer, the creation request carries the replica count zero itself and no stream info
  is fetched.
\<close>

theorem replicas_zero:
  assumes "NatsConsumerConfig.num_replicas cc = Some 0"
    and "consumers_info jsm h s c = Inr (Some info_config)"
    and "streams_info jsm (h @ [BrokerCall (ConsumersInfo s c)]) s = Inr (Some stream_config)"
  shows "take 2 (calls (snd (updateConsumer jsm nc s c cc h))) = [ConsumersInfo s c, StreamsInfo s]
   \<and> (\<forall>s' c' cfg. ConsumersUpdate s' c' cfg \<in> set (calls (snd (updateConsumer jsm nc s c cc h)))
          \<longrightarrow> ConsumerConfig.num_replicas cfg = StreamConfig.num_replicas stream_config)
   \<and> calls (snd (Subscribe_createConsumer jsm nc topic s c q inbox cc h')) =
      [ConsumersAdd s \<lparr>ConsumerConfig.name = c, deliver_subject = inbox, durable_name = c,
          ack_wait = NatsConsumerConfig.ack_wait cc, num_replicas = Some 0,
          filter_subject = topic, deliver_group = q, ack_policy = Explicit, deliver_policy = Last\<rparr>]"
proof -
  have z: "\<not> js_gt (NatsConsumerConfig.num_replicas cc) 1 \<or> (\<exists>cl. info nc = Some \<lparr>cluster = Some cl\<rparr>)"
    using assms(1) by (simp add: js_gt_def)
  have u: "calls (snd (updateConsumer jsm nc s c cc h)) =
      [ConsumersInfo s c, StreamsInfo s] @
      (if NatsConsumerConfig.ack_wait cc > 0 \<and> ConsumerConfig.ack_wait info_config \<noteq> NatsConsumerConfig.ack_wait cc
       then [ConsumersUpdate s c
               (info_config\<lparr>ConsumerConfig.ack_wait := NatsConsumerConfig.ack_wait cc,
                            ConsumerConfig.num_replicas := StreamConfig.num_replicas stream_config\<rparr>)]
       else [])"
    using updateConsumer_try_zero [OF assms(2,3,1)] by (simp only: updateConsumer_calls)
  show ?thesis
    by (auto simp add: u Subscribe_createConsumer_plain [OF z] assms(1) split: sum.splits)
qed

theorem replicas_zero_witness:
  "calls (snd (updateConsumer
        (broker_const (Inr (Some (stream_with 3)))
           (Inr (Some ((consumer_with 1)\<lparr>ConsumerConfig.ack_wait := 30\<rparr>))) (Inr ()))
        nc_single ''s'' ''c'' (desired_consumer 0) []))
     = [ConsumersInfo ''s'' ''c'', StreamsInfo ''s'', ConsumersUpdate ''s'' ''c'' (consumer_with 3)]
   \<and> ConsumerConfig.num_replicas (consumer_with 3) = StreamConfig.num_replicas (stream_with 3)
   \<and> calls (snd (Subscribe_createConsumer
        (broker_const (Inr (Some (stream_with 3)))
           (Inr (Some ((consumer_with 1)\<lparr>ConsumerConfig.ack_wait := 30\<rparr>))) (Inr ()))
        nc_single ''t'' ''s'' ''c'' ''q'' ''inbox'' (desired_consumer 0) []))
     = [ConsumersAdd ''s'' (added_consumer 0)]"
  using replicas_zero [of "desired_consumer 0"
     "broker_const (Inr (Some (stream_with 3)))
        (Inr (Some ((consumer_with 1)\<lparr>ConsumerConfig.ack_wait := 30\<rparr>))) (Inr ())"
     "[]" "''s''" "''c''" "(consumer_with 1)\<lparr>ConsumerConfig.ack_wait := 30\<rparr>" "stream_with 3"
     nc_single "''t''" "''q''" "''inbox''" "[]"]
  by (simp add: desired_consumer_def broker_const_def consumer_with_def added_consumer_def
      stream_with_def updateConsumer_def updateConsumer_try_def updateConsumer_ack_wait_def
      updateConsumer_inherit_def updateConsumer_replicas_def js_gt_def Let_def)

text \<open>
  With a consumer of one replica on a stream of three and an unchanged acknowledgement
  wait, no update is sent, so the consumer keeps its one replica; and an absent consumer is
  created with the replica count zero, without a request for the stream in between.
\<close>

theorem replicas_zero_counterexample:
  "calls (snd (snd (Subscribe (utils_example (Some 0))
       (broker_const (Inr (Some (stream_with 3))) (Inr (Some (consumer_with 1))) (Inr ()))
       nc_single ''inbox'' ''t'' [])))
     = [StreamsInfo ''s'', ConsumersInfo ''s'' ''c'', StreamsInfo ''s'', JsSubscribe ''t'' (opts_example 0)]
   \<and> calls (snd (snd (Subscribe (utils_example (Some 0))
       (broker_const (Inr (Some (stream_with 3))) (Inl consumer_not_found) (Inr ()))
       nc_single ''inbox'' ''t'' [])))
     = [StreamsInfo ''s'', ConsumersInfo ''s'' ''c'', ConsumersAdd ''s'' (added_consumer 0),
        JsSubscribe ''t'' (opts_example 0)]"
  by code_simp

text \<open>
  The requests and the warning of the \<open>try\<close> of \<open>updateConsumer\<close>, and the creation of the
  consumer, for a desired replica count above one on a connection without cluster. When
  the stream info request of line 140 throws, the \<open>try\<close> ends there: no warning and no
  update.
\<close>

lemma updateConsumer_try_guard:
  assumes n: "NatsConsumerConfig.num_replicas cc = Some n" "1 < n"
    and nc: "info nc = Some server" "cluster server = None"
    and ci: "consumers_info jsm h s c = Inr (Some info_config)"
  shows "calls (snd (updateConsumer_try jsm nc s c cc h)) =
      [ConsumersInfo s c, StreamsInfo s] @
      (if \<not> isl (streams_info jsm (h @ [BrokerCall (ConsumersInfo s c)]) s)
          \<and> NatsConsumerConfig.ack_wait cc > 0
          \<and> ConsumerConfig.ack_wait info_config \<noteq> NatsConsumerConfig.ack_wait cc
       then [ConsumersUpdate s c (info_config\<lparr>ConsumerConfig.ack_wait := NatsConsumerConfig.ack_wait cc\<rparr>)]
       else [])"
    and "replicas_warning \<in> set (snd (updateConsumer_try jsm nc s c cc h))
          \<longleftrightarrow> \<not> isl (streams_info jsm (h @ [BrokerCall (ConsumersInfo s c)]) s)
               \<and> ConsumerConfig.num_replicas info_config \<noteq> Some n"
proof -
  show "calls (snd (updateConsumer_try jsm nc s c cc h)) =
      [ConsumersInfo s c, StreamsInfo s] @
      (if \<not> isl (streams_info jsm (h @ [BrokerCall (ConsumersInfo s c)]) s)
          \<and> NatsConsumerConfig.ack_wait cc > 0
          \<and> ConsumerConfig.ack_wait info_config \<noteq> NatsConsumerConfig.ack_wait cc
       then [ConsumersUpdate s c (info_config\<lparr>ConsumerConfig.ack_wait := NatsConsumerConfig.ack_wait cc\<rparr>)]
       else [])"
  proof (cases "streams_info jsm (h @ [BrokerCall (ConsumersInfo s c)]) s")
    case (Inl err)
    then show ?thesis by (simp add: updateConsumer_try_def ci Let_def)
  next
    case (Inr streamInfo)
    then show ?thesis
      using n(2)
      by (simp add: updateConsumer_try_def ci n(1) nc updateConsumer_ack_wait_def
          updateConsumer_inherit_def updateConsumer_replicas_def js_gt_def Let_def split: sum.splits)
  qed
  show "replicas_warning \<in> set (snd (updateConsumer_try jsm nc s c cc h))
          \<longleftrightarrow> \<not> isl (streams_info jsm (h @ [BrokerCall (ConsumersInfo s c)]) s)
               \<and> ConsumerConfig.num_replicas info_config \<noteq> Some n"
  proof (cases "streams_info jsm (h @ [BrokerCall (ConsumersInfo s c)]) s")
    case (Inl err)
    then show ?thesis by (simp add: updateConsumer_try_def ci replicas_warning_def Let_def)
  next
    case (Inr streamInfo)
    then show ?thesis
      using n(2)
      by (simp add: updateConsumer_try_def ci n(1) nc updateConsumer_ack_wait_def
          updateConsumer_inherit_def updateConsumer_replicas_def js_gt_def replicas_warning_def
          Let_def split: sum.splits)
  qed
qed

lemma Subscribe_createConsumer_guard:
  assumes n: "NatsConsumerConfig.num_replicas cc = Some n" "1 < n"
    and nc: "info nc = Some server" "cluster server = None"
    and si: "streams_info jsm (h @ [replicas_warning]) s = Inr (Some stream_config)"
  shows "Subscribe_createConsumer jsm nc topic s c q inbox cc h =
      (cc\<lparr>NatsConsumerConfig.num_replicas := StreamConfig.num_replicas stream_config\<rparr>,
       [replicas_warning, BrokerCall (StreamsInfo s),
        BrokerCall (ConsumersAdd s \<lparr>ConsumerConfig.name = c, deliver_subject = inbox, durable_name = c,
          ack_wait = NatsConsumerConfig.ack_wait cc, num_replicas = StreamConfig.num_replicas stream_config,
          filter_subject = topic, deliver_group = q, ack_policy = Explicit, deliver_policy = Last\<rparr>)] @
           (case consumers_add jsm (h @ [replicas_warning, BrokerCall (StreamsInfo s)]) s
              \<lparr>ConsumerConfig.name = c, deliver_subject = inbox, durable_name = c,
          ack_wait = NatsConsumerConfig.ack_wait cc, num_replicas = StreamConfig.num_replicas stream_config,
          filter_subject = topic, deliver_group = q, ack_policy = Explicit, deliver_policy = Last\<rparr> of
              Inl err \<Rightarrow> [Log ERROR [Str ''error occurred while adding consumer'', Err err]]
            | Inr _ \<Rightarrow> [Log INFO [Str ''consumer added successfully'']]))"
  using n(2) si
  by (simp add: Subscribe_createConsumer_def n(1) nc js_gt_def replicas_warning_def Let_def split: sum.splits)

text \<open>The creation of the consumer logs the warning whatever the broker answers.\<close>

lemma Subscribe_createConsumer_warns:
  assumes n: "NatsConsumerConfig.num_replicas cc = Some n" "1 < n"
    and nc: "info nc = Some server" "cluster server = None"
  shows "replicas_warning \<in> set (snd (Subscribe_createConsumer jsm nc topic s c q inbox cc h))"
  using n(2)
  by (simp add: Subscribe_createConsumer_def n(1) nc js_gt_def replicas_warning_def Let_def
      split: sum.splits option.splits)

text \<open>
  C4, amended. With a desired replica count above one on a connection that reports no
  cluster: for an existing consumer, the replica count is left as the broker reported it
  (the only update that may be sent is the one for the acknowledgement wait, with the
  reported replica count), and the warning is logged exactly when the stream info request
  of line 140 returns and the reported replica count differs from the desired one; for an
  absent consumer the warning is always logged and, when the stream info is returned, the
  consumer is created with the replica count of the stream.
\<close>

theorem replicas_guard:
  assumes "NatsConsumerConfig.num_replicas cc = Some n" and "1 < n"
    and "info nc = Some server" and "cluster server = None"
    and "consumers_info jsm h s c = Inr (Some info_config)"
  shows "calls (snd (updateConsumer jsm nc s c cc h)) =
      [ConsumersInfo s c, StreamsInfo s] @
      (if \<not> isl (streams_info jsm (h @ [BrokerCall (ConsumersInfo s c)]) s)
          \<and> NatsConsumerConfig.ack_wait cc > 0
          \<and> ConsumerConfig.ack_wait info_config \<noteq> NatsConsumerConfig.ack_wait cc
       then [ConsumersUpdate s c (info_config\<lparr>ConsumerConfig.ack_wait := NatsConsumerConfig.ack_wait cc\<rparr>)]
       else [])
    \<and> (replicas_warning \<in> set (snd (updateConsumer jsm nc s c cc h))
          \<longleftrightarrow> \<not> isl (streams_info jsm (h @ [BrokerCall (ConsumersInfo s c)]) s)
               \<and> ConsumerConfig.num_replicas info_config \<noteq> Some n)
    \<and> replicas_warning \<in> set (snd (Subscribe_createConsumer jsm nc topic s c q inbox cc h'))
    \<and> (streams_info jsm (h' @ [replicas_warning]) s = Inr (Some stream_config) \<longrightarrow>
        calls (snd (Subscribe_createConsumer jsm nc topic s c q inbox cc h')) =
          [StreamsInfo s,
           ConsumersAdd s \<lparr>ConsumerConfig.name = c, deliver_subject = inbox, durable_name = c,
            ack_wait = NatsConsumerConfig.ack_wait cc, num_replicas = StreamConfig.num_replicas stream_config,
            filter_subject = topic, deliver_group = q, ack_policy = Explicit, deliver_policy = Last\<rparr>])"
proof -
  note u = updateConsumer_try_guard [OF assms(1-5)]
  note w = Subscribe_createConsumer_warns [OF assms(1-4), of jsm topic s c q inbox h']
  have b: "broker_call replicas_warning = None" by (simp add: replicas_warning_def)
  have c: "calls (snd (Subscribe_createConsumer jsm nc topic s c q inbox cc h')) =
          [StreamsInfo s,
           ConsumersAdd s \<lparr>ConsumerConfig.name = c, deliver_subject = inbox, durable_name = c,
            ack_wait = NatsConsumerConfig.ack_wait cc, num_replicas = StreamConfig.num_replicas stream_config,
            filter_subject = topic, deliver_group = q, ack_policy = Explicit, deliver_policy = Last\<rparr>]"
    if si: "streams_info jsm (h' @ [replicas_warning]) s = Inr (Some stream_config)"
    by (simp add: Subscribe_createConsumer_guard [OF assms(1-4) si, of topic c q inbox] b
        split: sum.splits)
  show ?thesis
    using u(2) w c by (simp only: updateConsumer_calls updateConsumer_warning u(1)) blast
qed

theorem replicas_guard_witness:
  "replicas_warning \<in> set (snd (updateConsumer
        (broker_const (Inr (Some (stream_with 1))) (Inr (Some (consumer_with 1))) (Inr ()))
        nc_single ''s'' ''c'' (desired_consumer 2) []))
   \<and> calls (snd (updateConsumer
        (broker_const (Inr (Some (stream_with 1))) (Inr (Some (consumer_with 1))) (Inr ()))
        nc_single ''s'' ''c'' (desired_consumer 2) []))
      = [ConsumersInfo ''s'' ''c'', StreamsInfo ''s'']
   \<and> replicas_warning \<in> set (snd (Subscribe_createConsumer
        (broker_const (Inr (Some (stream_with 1))) (Inr (Some (consumer_with 1))) (Inr ()))
        nc_single ''t'' ''s'' ''c'' ''q'' ''inbox'' (desired_consumer 2) []))
   \<and> calls (snd (Subscribe_createConsumer
        (broker_const (Inr (Some (stream_with 1))) (Inr (Some (consumer_with 1))) (Inr ()))
        nc_single ''t'' ''s'' ''c'' ''q'' ''inbox'' (desired_consumer 2) []))
      = [StreamsInfo ''s'', ConsumersAdd ''s'' (added_consumer 1)]"
  using replicas_guard [of "desired_consumer 2" 2 nc_single "\<lparr>cluster = None\<rparr>"
      "broker_const (Inr (Some (stream_with 1))) (Inr (Some (consumer_with 1))) (Inr ())"
      "[]" "''s''" "''c''" "consumer_with 1" "''t''" "''q''" "''inbox''" "[]" "stream_with 1"]
  by (simp add: desired_consumer_def broker_const_def consumer_with_def added_consumer_def
      nc_single_def stream_with_def)

text \<open>
  An existing consumer that already has the two desired replicas gets no warning; nor
  does one with a single replica when the stream info request throws; and when the stream
  info request returns \<open>null\<close>, the absent consumer is created with the two desired
  replicas.
\<close>

theorem replicas_guard_counterexample:
  "replicas_warning \<notin> set (snd (snd (Subscribe (utils_example (Some 2))
       (broker_const (Inr (Some (stream_with 1))) (Inr (Some (consumer_with 2))) (Inr ()))
       nc_single ''inbox'' ''t'' [])))
   \<and> replicas_warning \<notin> set (snd (snd (Subscribe (utils_example (Some 2))
       (broker_const (Inl OtherError) (Inr (Some (consumer_with 1))) (Inr ()))
       nc_single ''inbox'' ''t'' [])))
   \<and> calls (snd (snd (Subscribe (utils_example (Some 2))
       (broker_const (Inr None) (Inl consumer_not_found) (Inr ()))
       nc_single ''inbox'' ''t'' [])))
     = [StreamsInfo ''s'', ConsumersInfo ''s'' ''c'', StreamsInfo ''s'',
        ConsumersAdd ''s'' (added_consumer 2), JsSubscribe ''t'' (opts_example 2)]"
  by code_simp

subsection \<open>Creation of an absent consumer\<close>

lemma updateConsumer_absent:
  assumes "consumers_info jsm h s c = Inl (NatsError (Some 10014))"
  shows "updateConsumer jsm nc s c cc h =
     (Inr True, [BrokerCall (ConsumersInfo s c),
                 Log ERROR [Str ''error occurred due to :'', Err (NatsError (Some 10014))]])"
  by (simp add: updateConsumer_def updateConsumer_try_def assms Let_def)

text \<open>
  C5, amended. When the consumer info request throws a \<open>NatsError\<close> with code 10014,
  \<open>updateConsumer\<close> returns true after that one request, so without an update request; and
  unless the desired replica count is above one on a connection without cluster
  information, the next request of the pass is the creation of the consumer, sent once,
  with acknowledgement policy \<open>Explicit\<close>, delivery policy \<open>Last\<close>, the consumer name as name
  and durable name, the topic as filter subject, the queue name as delivery group, the
  inbox as delivery subject and the desired acknowledgement wait and replica count; the
  subscription follows.
\<close>

theorem consumer_absent_creates:
  assumes "addOrUpdateStream jsm s sc h = (Inr (), sc', e1)"
    and "consumers_info jsm (h @ e1) s c = Inl (NatsError (Some 10014))"
    and "\<not> js_gt (NatsConsumerConfig.num_replicas cc) 1 \<or> (\<exists>cl. info nc = Some \<lparr>cluster = Some cl\<rparr>)"
  shows "updateConsumer jsm nc s c cc (h @ e1) =
       (Inr True, [BrokerCall (ConsumersInfo s c),
                   Log ERROR [Str ''error occurred due to :'', Err (NatsError (Some 10014))]])
    \<and> calls (snd (snd (snd (Subscribe_attempt jsm nc topic s c q inbox opts cc sc h)))) =
        calls e1 @
        [ConsumersInfo s c,
         ConsumersAdd s \<lparr>ConsumerConfig.name = c, deliver_subject = inbox, durable_name = c,
          ack_wait = NatsConsumerConfig.ack_wait cc, num_replicas = NatsConsumerConfig.num_replicas cc,
          filter_subject = topic, deliver_group = q, ack_policy = Explicit, deliver_policy = Last\<rparr>,
         JsSubscribe topic opts]"
  by (simp add: Subscribe_attempt_def assms(1) updateConsumer_absent [OF assms(2)]
      Subscribe_createConsumer_plain [OF assms(3)] Let_def split: sum.splits)

theorem consumer_absent_creates_witness:
  "calls (snd (snd (snd (Subscribe_attempt
      (broker_const (Inr (Some (stream_with 1))) (Inl consumer_not_found) (Inr ()))
      nc_single ''t'' ''s'' ''c'' ''q'' ''inbox'' (opts_example 0) (desired_consumer 0) desired_stream []))))
   = [StreamsInfo ''s'', ConsumersInfo ''s'' ''c'', ConsumersAdd ''s'' (added_consumer 0),
      JsSubscribe ''t'' (opts_example 0)]"
  using consumer_absent_creates [of
      "broker_const (Inr (Some (stream_with 1))) (Inl consumer_not_found) (Inr ())"
      "''s''" desired_stream "[]" desired_stream "[BrokerCall (StreamsInfo ''s'')]" "''c''"
      "desired_consumer 0" nc_single "''t''" "''q''" "''inbox''" "opts_example 0"]
  by (simp add: broker_const_def consumer_not_found_def desired_consumer_def desired_stream_def
      stream_with_def added_consumer_def addOrUpdateStream_def checkConfigChangeReqd_def index0_def
      js_gt_def)

text \<open>
  With two desired replicas on a connection without cluster, the request after the
  consumer info is a stream info; and when that request throws, no consumer is created.
\<close>

theorem consumer_absent_counterexample:
  "calls (snd (snd (Subscribe (utils_example (Some 2))
       (broker_const (Inr (Some (stream_with 1))) (Inl consumer_not_found) (Inr ()))
       nc_single ''inbox'' ''t'' [])))
     = [StreamsInfo ''s'', ConsumersInfo ''s'' ''c'', StreamsInfo ''s'',
        ConsumersAdd ''s'' (added_consumer 1), JsSubscribe ''t'' (opts_example 2)]
   \<and> calls (snd (snd (Subscribe (utils_example (Some 2))
       (broker_const (Inl OtherError) (Inl consumer_not_found) (Inr ()))
       nc_single ''inbox'' ''t'' [])))
     = [StreamsInfo ''s'', ConsumersInfo ''s'' ''c'', StreamsInfo ''s'', JsSubscribe ''t'' (opts_example 2)]"
  by code_simp

end
